theory Spec2Isabelle
  imports Complex_Main
begin

section \<open>Numbers as pandas and numpy compute them\<close>

text \<open>
  \<^verbatim>\<open>app.py\<close> computes every indicator on pandas Series of IEEE doubles. The values that
  decide the behaviour at the edges of a series are the special ones: \<^verbatim>\<open>NaN\<close> (pandas'
  marker for a missing entry) and the two infinities that a division by zero produces
  (numpy divides without raising). A value is therefore either a finite number or one of
  these three. Finite values are taken as exact reals: rounding to 53 bits, overflow and
  the sign of zero are outside this model.
\<close>

datatype fl = Fin real | PInf | NInf | NaN

fun fneg :: "fl \<Rightarrow> fl" where
  "fneg (Fin a) = Fin (- a)"
| "fneg PInf = NInf"
| "fneg NInf = PInf"
| "fneg NaN = NaN"

fun fadd :: "fl \<Rightarrow> fl \<Rightarrow> fl" where
  "fadd (Fin a) (Fin b) = Fin (a + b)"
| "fadd NaN y = NaN"
| "fadd x NaN = NaN"
| "fadd PInf NInf = NaN"
| "fadd NInf PInf = NaN"
| "fadd PInf y = PInf"
| "fadd x PInf = PInf"
| "fadd NInf y = NInf"
| "fadd x NInf = NInf"

definition fsub :: "fl \<Rightarrow> fl \<Rightarrow> fl" where
  "fsub x y = fadd x (fneg y)"

fun fmul :: "fl \<Rightarrow> fl \<Rightarrow> fl" where
  "fmul (Fin a) (Fin b) = Fin (a * b)"
| "fmul NaN y = NaN"
| "fmul x NaN = NaN"
| "fmul (Fin a) PInf = (if 0 < a then PInf else if a < 0 then NInf else NaN)"
| "fmul (Fin a) NInf = (if 0 < a then NInf else if a < 0 then PInf else NaN)"
| "fmul PInf (Fin b) = (if 0 < b then PInf else if b < 0 then NInf else NaN)"
| "fmul NInf (Fin b) = (if 0 < b then NInf else if b < 0 then PInf else NaN)"
| "fmul PInf PInf = PInf"
| "fmul NInf NInf = PInf"
| "fmul PInf NInf = NInf"
| "fmul NInf PInf = NInf"

text \<open>
  Division of Series and of numpy scalars: a zero divisor gives an infinity with the sign
  of the dividend, and \<^verbatim>\<open>0/0\<close> gives \<^verbatim>\<open>NaN\<close>; nothing is raised.
\<close>

fun fdiv :: "fl \<Rightarrow> fl \<Rightarrow> fl" where
  "fdiv (Fin a) (Fin b) =
     (if b \<noteq> 0 then Fin (a / b)
      else if 0 < a then PInf else if a < 0 then NInf else NaN)"
| "fdiv NaN y = NaN"
| "fdiv x NaN = NaN"
| "fdiv (Fin a) PInf = Fin 0"
| "fdiv (Fin a) NInf = Fin 0"
| "fdiv PInf (Fin b) = (if 0 \<le> b then PInf else NInf)"
| "fdiv NInf (Fin b) = (if 0 \<le> b then NInf else PInf)"
| "fdiv PInf PInf = NaN"
| "fdiv PInf NInf = NaN"
| "fdiv NInf PInf = NaN"
| "fdiv NInf NInf = NaN"

text \<open>The comparison \<^verbatim>\<open>x > 0\<close>: false for \<^verbatim>\<open>NaN\<close>.\<close>

fun fpos :: "fl \<Rightarrow> bool" where
  "fpos (Fin a) = (0 < a)"
| "fpos PInf = True"
| "fpos NInf = False"
| "fpos NaN = False"

text \<open>
  Python's \<^verbatim>\<open>round(x, ndigits)\<close> on a float: to the nearest multiple of \<open>10\<^sup>-\<^sup>n\<close>, a tie
  going to the even neighbour; \<^verbatim>\<open>NaN\<close> and the infinities are returned unchanged.
\<close>

definition round_half_even :: "real \<Rightarrow> int" where
  "round_half_even x =
     (let f = \<lfloor>x\<rfloor>; d = x - of_int f
      in if d < 1 / 2 then f else if 1 / 2 < d then f + 1
         else if even f then f else f + 1)"

definition round_real :: "real \<Rightarrow> nat \<Rightarrow> real" where
  "round_real x n = of_int (round_half_even (x * 10 ^ n)) / 10 ^ n"

fun py_round :: "fl \<Rightarrow> nat \<Rightarrow> fl" where
  "py_round (Fin a) n = Fin (round_real a n)"
| "py_round x n = x"

text \<open>
  The division of two Python floats (not of numpy values) raises \<^verbatim>\<open>ZeroDivisionError\<close> on
  a zero divisor.
\<close>

definition py_truediv :: "real \<Rightarrow> real \<Rightarrow> string + real" where
  "py_truediv a b = (if b = 0 then Inl ''float division by zero'' else Inr (a / b))"

text \<open>\<^verbatim>\<open>int(x)\<close> on a float truncates towards zero.\<close>

definition py_int :: "real \<Rightarrow> int" where
  "py_int x = (if 0 \<le> x then \<lfloor>x\<rfloor> else \<lceil>x\<rceil>)"

section \<open>Series operations\<close>

text \<open>
  A Series is the list of its values; the date index plays no part in any computation of
  \<^verbatim>\<open>app.py\<close> and is left out. \<^verbatim>\<open>shift(1)\<close> moves every value one position down and
  puts \<^verbatim>\<open>NaN\<close> first; \<^verbatim>\<open>diff()\<close> is \<^verbatim>\<open>x - x.shift(1)\<close> and \<^verbatim>\<open>pct_change()\<close> is
  \<^verbatim>\<open>x / x.shift(1) - 1\<close> (it first fills \<^verbatim>\<open>NaN\<close> entries forward, of which a column of
  closes has none).
\<close>

definition shift1 :: "fl list \<Rightarrow> fl list" where
  "shift1 xs = (if xs = [] then [] else NaN # butlast xs)"

definition diff :: "fl list \<Rightarrow> fl list" where
  "diff xs = map2 fsub xs (shift1 xs)"

definition pct_change :: "fl list \<Rightarrow> fl list" where
  "pct_change xs = map (\<lambda>q. fsub q (Fin 1)) (map2 fdiv xs (shift1 xs))"

definition dropna :: "fl list \<Rightarrow> fl list" where
  "dropna xs = filter (\<lambda>x. x \<noteq> NaN) xs"

fun clip_lower :: "real \<Rightarrow> fl \<Rightarrow> fl" where
  "clip_lower b (Fin a) = Fin (max a b)"
| "clip_lower b PInf = PInf"
| "clip_lower b NInf = Fin b"
| "clip_lower b NaN = NaN"

fun clip_upper :: "real \<Rightarrow> fl \<Rightarrow> fl" where
  "clip_upper b (Fin a) = Fin (min a b)"
| "clip_upper b PInf = Fin b"
| "clip_upper b NInf = NInf"
| "clip_upper b NaN = NaN"

text \<open>The finite values of a Series, in order; the mean of one value or more.\<close>

fun finite_vals :: "fl list \<Rightarrow> real list" where
  "finite_vals [] = []"
| "finite_vals (Fin a # xs) = a # finite_vals xs"
| "finite_vals (x # xs) = finite_vals xs"

definition mean_r :: "real list \<Rightarrow> real" where
  "mean_r xs = sum_list xs / real (length xs)"

text \<open>
  The sample standard deviation (pandas' default \<^verbatim>\<open>ddof=1\<close>) of at least two values. For
  fewer pandas gives \<^verbatim>\<open>NaN\<close>: \<open>series_std\<close> below says so, and the one rolling window
  that takes a standard deviation has 20 values.
\<close>

definition std_r :: "real list \<Rightarrow> real" where
  "std_r xs = sqrt (sum_list (map (\<lambda>x. (x - mean_r xs)\<^sup>2) xs) / real (length xs - 1))"

text \<open>
  \<^verbatim>\<open>Series.mean()\<close> and \<^verbatim>\<open>Series.std()\<close> skip \<^verbatim>\<open>NaN\<close>. The mean of no values is
  \<^verbatim>\<open>NaN\<close>, and so is the standard deviation of fewer than two. An infinity among the
  values makes the sum an infinity or \<^verbatim>\<open>NaN\<close>, and the deviation from an infinite mean
  \<^verbatim>\<open>NaN\<close>.
\<close>

definition series_mean :: "fl list \<Rightarrow> fl" where
  "series_mean xs =
     (let ys = dropna xs
      in if ys = [] then NaN else fdiv (foldl fadd (Fin 0) ys) (Fin (real (length ys))))"

definition series_std :: "fl list \<Rightarrow> fl" where
  "series_std xs =
     (let ys = dropna xs
      in if length ys < 2 then NaN
         else if length (finite_vals ys) = length ys then Fin (std_r (finite_vals ys))
         else NaN)"

text \<open>
  \<^verbatim>\<open>rolling(w)\<close> looks, at index \<open>i\<close>, at the values at \<open>i - w + 1 .. i\<close> that exist. Its
  \<^verbatim>\<open>min_periods\<close> defaults to \<open>w\<close>: with fewer than \<open>w\<close> observations in the window (a
  \<^verbatim>\<open>NaN\<close> is not an observation, and pandas turns an infinity into \<^verbatim>\<open>NaN\<close> before it
  rolls) the result at \<open>i\<close> is \<^verbatim>\<open>NaN\<close>. The windows of the program are 14, 20, 50 and 200
  long.
\<close>

definition window :: "nat \<Rightarrow> 'a list \<Rightarrow> nat \<Rightarrow> 'a list" where
  "window w xs i = drop (Suc i - w) (take (Suc i) xs)"

definition rolling :: "nat \<Rightarrow> (real list \<Rightarrow> real) \<Rightarrow> fl list \<Rightarrow> fl list" where
  "rolling w f xs =
     map (\<lambda>i. let obs = finite_vals (window w xs i)
              in if w \<le> length obs then Fin (f obs) else NaN) [0..<length xs]"

definition rolling_mean :: "nat \<Rightarrow> fl list \<Rightarrow> fl list" where
  "rolling_mean w xs = rolling w mean_r xs"

definition series_max :: "real list \<Rightarrow> real" where
  "series_max xs = fold max (tl xs) (hd xs)"

definition series_min :: "real list \<Rightarrow> real" where
  "series_min xs = fold min (tl xs) (hd xs)"

section \<open>Strings\<close>

text \<open>\<^verbatim>\<open>str.upper()\<close> and \<^verbatim>\<open>str.strip()\<close>, on ASCII text.\<close>

definition char_upper :: "char \<Rightarrow> char" where
  "char_upper c =
     (let n = (of_char c :: nat) in if 97 \<le> n \<and> n \<le> 122 then char_of (n - 32) else c)"

definition upper :: "string \<Rightarrow> string" where
  "upper s = map char_upper s"

definition is_space :: "char \<Rightarrow> bool" where
  "is_space c =
     (let n = (of_char c :: nat) in (9 \<le> n \<and> n \<le> 13) \<or> (28 \<le> n \<and> n \<le> 32))"

definition strip :: "string \<Rightarrow> string" where
  "strip s = rev (dropWhile is_space (rev (dropWhile is_space s)))"

section \<open>The data\<close>

text \<open>
  One row of the history DataFrame. Prices are finite numbers, the volume an integer.
\<close>

record bar =
  Open :: real
  High :: real
  Low :: real
  Close :: real
  Volume :: int

text \<open>
  The keys of \<^verbatim>\<open>stock.info\<close> that the program reads; a key that is absent is \<open>None\<close>.
\<close>

record profile =
  longName :: "string option"
  info_sector :: "string option"
  info_industry :: "string option"
  marketCap :: "real option"
  trailingPE :: "real option"
  forwardPE :: "real option"
  priceToBook :: "real option"
  dividendYield :: "real option"
  trailingEps :: "real option"
  info_beta :: "real option"

definition no_profile :: profile where
  "no_profile = \<lparr>longName = None, info_sector = None, info_industry = None,
     marketCap = None, trailingPE = None, forwardPE = None, priceToBook = None,
     dividendYield = None, trailingEps = None, info_beta = None\<rparr>"

text \<open>
  The market-data client \<^verbatim>\<open>yfinance\<close> is not part of the program: it is a parameter.
  \<^verbatim>\<open>Ticker(t).history(period=p)\<close> either raises (\<open>Inl\<close> the message) or returns the rows,
  possibly none; \<^verbatim>\<open>Ticker(t).info\<close> either raises or returns a dict or \<^verbatim>\<open>None\<close>.
\<close>

record yfinance =
  history :: "string \<Rightarrow> string \<Rightarrow> string + bar list"
  info :: "string \<Rightarrow> string + profile option"

text \<open>
  The two figures, as the y-values of their traces; colours, layout and the JSON encoding
  are left out.
\<close>

record price_chart =
  candles :: "bar list"
  MA50 :: "fl list"
  MA200 :: "fl list"
  BB_Upper :: "fl list"
  BB_Lower :: "fl list"

record vol_chart =
  bars_y :: "int list"
  bars_up :: "bool list"

record snapshot =
  ticker :: string
  name :: string
  sector :: string
  industry :: string
  current_price :: real
  price_change :: real
  price_change_pct :: real
  market_cap :: "real option"
  pe_ratio :: "real option"
  forward_pe :: "real option"
  pb_ratio :: "real option"
  dividend_yield :: real
  eps :: "real option"
  beta :: "real option"
  w52_high :: real
  w52_low :: real
  volatility :: fl
  sharpe_ratio :: fl
  rsi :: fl
  volume :: int
  avg_volume :: int
  chart_json :: price_chart
  vol_chart_json :: vol_chart

section \<open>\<^verbatim>\<open>fetch_stock_data\<close>\<close>

text \<open>The column \<^verbatim>\<open>hist["Close"]\<close>.\<close>

definition closes :: "bar list \<Rightarrow> fl list" where
  "closes hist = map (\<lambda>b. Fin (Close b)) hist"

text \<open>Lines 24 to 27: the latest price and its change.\<close>

definition current_price_of :: "bar list \<Rightarrow> real" where
  "current_price_of hist = Close (last hist)"

definition prev_price_of :: "bar list \<Rightarrow> real" where
  "prev_price_of hist =
     (if 1 < length hist then Close (hist ! (length hist - 2)) else current_price_of hist)"

definition price_change_of :: "bar list \<Rightarrow> real" where
  "price_change_of hist = current_price_of hist - prev_price_of hist"

definition price_change_pct_of :: "bar list \<Rightarrow> string + real" where
  "price_change_pct_of hist =
     (if prev_price_of hist \<noteq> 0
      then (case py_truediv (price_change_of hist) (prev_price_of hist) of
              Inl e \<Rightarrow> Inl e
            | Inr q \<Rightarrow> Inr (q * 100))
      else Inr 0)"

text \<open>Lines 30 and 31: the daily returns.\<close>

definition daily_returns :: "bar list \<Rightarrow> fl list" where
  "daily_returns hist = dropna (pct_change (closes hist))"

text \<open>Lines 34 and 35: the risk metrics.\<close>

definition volatility_of :: "fl list \<Rightarrow> fl" where
  "volatility_of returns = fmul (fmul (series_std returns) (Fin (sqrt 252))) (Fin 100)"

definition sharpe_of :: "fl list \<Rightarrow> fl" where
  "sharpe_of returns =
     (if fpos (series_std returns)
      then fdiv (fmul (series_mean returns) (Fin 252))
                (fmul (series_std returns) (Fin (sqrt 252)))
      else Fin 0)"

text \<open>Lines 42 to 46: the 14-period RSI.\<close>

definition rsi_gain :: "fl list \<Rightarrow> fl list" where
  "rsi_gain cl = rolling_mean 14 (map (clip_lower 0) (diff cl))"

definition rsi_loss :: "fl list \<Rightarrow> fl list" where
  "rsi_loss cl = rolling_mean 14 (map (\<lambda>d. fneg (clip_upper 0 d)) (diff cl))"

definition rsi_rs :: "fl list \<Rightarrow> fl list" where
  "rsi_rs cl = map2 fdiv (rsi_gain cl) (rsi_loss cl)"

definition rsi_series :: "fl list \<Rightarrow> fl list" where
  "rsi_series cl = map (\<lambda>rs. fsub (Fin 100) (fdiv (Fin 100) (fadd (Fin 1) rs))) (rsi_rs cl)"

text \<open>
  Lines 49 to 52: the Bollinger bands. \<^verbatim>\<open>rolling(20).std()\<close> is the sample standard
  deviation of the 20 values of the window.
\<close>

definition bb_mid :: "fl list \<Rightarrow> fl list" where
  "bb_mid cl = rolling_mean 20 cl"

definition bb_std :: "fl list \<Rightarrow> fl list" where
  "bb_std cl = rolling 20 std_r cl"

definition bb_upper :: "fl list \<Rightarrow> fl list" where
  "bb_upper cl = map2 fadd (bb_mid cl) (map (fmul (Fin 2)) (bb_std cl))"

definition bb_lower :: "fl list \<Rightarrow> fl list" where
  "bb_lower cl = map2 fsub (bb_mid cl) (map (fmul (Fin 2)) (bb_std cl))"

text \<open>
  The returned dict, given the percentage change \<open>pct\<close> of line 27 (the one value whose
  computation can raise).
\<close>

definition build_snapshot :: "string \<Rightarrow> bar list \<Rightarrow> profile \<Rightarrow> real \<Rightarrow> snapshot" where
  "build_snapshot tk hist prof pct =
     (let cl = closes hist;
          returns = daily_returns hist
      in \<lparr>ticker = upper tk,
          name = (case longName prof of Some n \<Rightarrow> n | None \<Rightarrow> upper tk),
          sector = (case info_sector prof of Some s \<Rightarrow> s | None \<Rightarrow> ''N/A''),
          industry = (case info_industry prof of Some s \<Rightarrow> s | None \<Rightarrow> ''N/A''),
          current_price = round_real (current_price_of hist) 2,
          price_change = round_real (price_change_of hist) 2,
          price_change_pct = round_real pct 2,
          market_cap = marketCap prof,
          pe_ratio = trailingPE prof,
          forward_pe = forwardPE prof,
          pb_ratio = priceToBook prof,
          dividend_yield =
            round_real ((case dividendYield prof of
                           Some y \<Rightarrow> (if y \<noteq> 0 then y else 0) | None \<Rightarrow> 0) * 100) 2,
          eps = trailingEps prof,
          beta = info_beta prof,
          w52_high = round_real (series_max (map High hist)) 2,
          w52_low = round_real (series_min (map Low hist)) 2,
          volatility = py_round (volatility_of returns) 2,
          sharpe_ratio = py_round (sharpe_of returns) 3,
          rsi = py_round (last (rsi_series cl)) 1,
          volume = Volume (last hist),
          avg_volume = py_int (real_of_int (sum_list (map Volume hist)) / real (length hist)),
          chart_json = \<lparr>candles = hist,
                         MA50 = rolling_mean 50 cl, MA200 = rolling_mean 200 cl,
                         BB_Upper = bb_upper cl, BB_Lower = bb_lower cl\<rparr>,
          vol_chart_json = \<lparr>bars_y = map Volume hist,
                             bars_up = map (\<lambda>b. Open b \<le> Close b) hist\<rparr>\<rparr>)"

text \<open>
  The function: \<open>Inl\<close> the message when something raises, \<open>Inr None\<close> for an empty history
  (line 19, before \<^verbatim>\<open>stock.info\<close> is read), \<open>Inr (Some s)\<close> otherwise.
\<close>

definition fetch_stock_data :: "yfinance \<Rightarrow> string \<Rightarrow> string \<Rightarrow> string + snapshot option" where
  "fetch_stock_data yf tk period =
     (case history yf tk period of
        Inl e \<Rightarrow> Inl e
      | Inr hist \<Rightarrow>
          if hist = [] then Inr None
          else (case info yf tk of
                  Inl e \<Rightarrow> Inl e
                | Inr i \<Rightarrow>
                    (case price_change_pct_of hist of
                       Inl e \<Rightarrow> Inl e
                     | Inr pct \<Rightarrow>
                         Inr (Some (build_snapshot tk hist
                                      (case i of Some p \<Rightarrow> p | None \<Rightarrow> no_profile) pct)))))"

section \<open>\<^verbatim>\<open>compare_stocks\<close>\<close>

record trace =
  trace_name :: string
  trace_y :: "fl list"

text \<open>Line 143: the percentage change from the first close (\<^verbatim>\<open>norm\<close> in the source).\<close>

definition norm_pct :: "bar list \<Rightarrow> fl list" where
  "norm_pct hist =
     map (\<lambda>c. fmul (fsub (fdiv c (hd (closes hist))) (Fin 1)) (Fin 100)) (closes hist)"

text \<open>
  The loop of lines 138 to 146, with the list \<^verbatim>\<open>traces\<close> as its state: a ticker whose
  history raises or is empty adds nothing.
\<close>

fun compare_loop :: "yfinance \<Rightarrow> string \<Rightarrow> string list \<Rightarrow> trace list \<Rightarrow> trace list" where
  "compare_loop yf period [] traces = traces"
| "compare_loop yf period (tk # tks) traces =
     (case history yf tk period of
        Inl e \<Rightarrow> compare_loop yf period tks traces
      | Inr hist \<Rightarrow>
          if hist = [] then compare_loop yf period tks traces
          else compare_loop yf period tks
                 (traces @ [\<lparr>trace_name = upper tk, trace_y = norm_pct hist\<rparr>]))"

definition compare_stocks :: "yfinance \<Rightarrow> string list \<Rightarrow> string \<Rightarrow> trace list" where
  "compare_stocks yf tickers period = compare_loop yf period tickers []"

section \<open>The route \<^verbatim>\<open>/analyze\<close>\<close>

text \<open>
  The JSON body of the request: the keys may be missing. The response is a body and a
  status code. (The routes \<^verbatim>\<open>/\<close> and \<^verbatim>\<open>/compare\<close> only render a page and parse a list
  of tickers for \<^verbatim>\<open>compare_stocks\<close>; they are left out.)
\<close>

record analyze_request =
  req_ticker :: "string option"
  req_period :: "string option"

datatype body = Error string | Result snapshot

definition not_found_message :: "string \<Rightarrow> string" where
  "not_found_message tk =
     ''No data found for '' @ [CHR 0x27] @ tk @ [CHR 0x27]
       @ ''. Check the symbol and try again.''"

definition analyze :: "yfinance \<Rightarrow> analyze_request \<Rightarrow> body \<times> nat" where
  "analyze yf data =
     (let tk = upper (strip (case req_ticker data of Some t \<Rightarrow> t | None \<Rightarrow> ''''));
          period = (case req_period data of Some p \<Rightarrow> p | None \<Rightarrow> ''1y'')
      in if tk = [] then (Error ''No ticker provided'', 400)
         else (case fetch_stock_data yf tk period of
                 Inl e \<Rightarrow> (Error e, 500)
               | Inr None \<Rightarrow> (Error (not_found_message tk), 404)
               | Inr (Some result) \<Rightarrow> (Result result, 200)))"

section \<open>Auxiliary definitions for the statements\<close>

text \<open>
  What a comparison gets for one ticker: the rows, when the client returned some; nothing,
  when it raised or returned none.
\<close>

definition fetched :: "yfinance \<Rightarrow> string \<Rightarrow> string \<Rightarrow> bar list option" where
  "fetched yf period tk =
     (case history yf tk period of
        Inl e \<Rightarrow> None
      | Inr hist \<Rightarrow> if hist = [] then None else Some hist)"

text \<open>The trace that line 144 appends for a ticker that was fetched.\<close>

definition trace_of :: "yfinance \<Rightarrow> string \<Rightarrow> string \<Rightarrow> trace" where
  "trace_of yf period tk =
     \<lparr>trace_name = upper tk, trace_y = norm_pct (the (fetched yf period tk))\<rparr>"

text \<open>The price move into bar \<open>k\<close>, its gain part and its loss part.\<close>

definition delta :: "bar list \<Rightarrow> nat \<Rightarrow> real" where
  "delta hist k = Close (hist ! k) - Close (hist ! (k - 1))"

definition gain_at :: "bar list \<Rightarrow> nat \<Rightarrow> real" where
  "gain_at hist k = max (delta hist k) 0"

definition loss_at :: "bar list \<Rightarrow> nat \<Rightarrow> real" where
  "loss_at hist k = - min (delta hist k) 0"

section \<open>Test data\<close>

text \<open>A history with the given closes; the other columns do not matter to the indicators.\<close>

definition bars_of :: "real list \<Rightarrow> bar list" where
  "bars_of cs = map (\<lambda>c. \<lparr>Open = c, High = c, Low = c, Close = c, Volume = 0\<rparr>) cs"

text \<open>
  A client that knows two tickers, returns no rows for \<^verbatim>\<open>ZZZZ\<close>, raises for every other
  symbol, and raises whenever \<^verbatim>\<open>info\<close> is read.
\<close>

definition demo_source :: yfinance where
  "demo_source =
     \<lparr>history = (\<lambda>tk period.
         if tk = ''AAA'' then Inr (bars_of [100, 110, 121])
         else if tk = ''BBB'' then Inr (bars_of [50, 55, 605 / 10])
         else if tk = ''ZZZZ'' then Inr []
         else Inl ''No timezone found, symbol may be delisted''),
       info = (\<lambda>tk. Inl ''HTTP Error 404'')\<rparr>"

text \<open>Twenty closes with mean 10 and sample standard deviation 2.\<close>

definition bb_demo :: "bar list" where
  "bb_demo = bars_of [16, 4, 11, 9, 11, 9, 10, 10, 10, 10, 10, 10, 10, 10, 10, 10, 10, 10, 10, 10]"

text \<open>Fifteen closes that rise twice and then stay: no loss in the 14 moves.\<close>

definition rsi_rising :: "bar list" where
  "rsi_rising = bars_of [10, 11, 12, 12, 12, 12, 12, 12, 12, 12, 12, 12, 12, 12, 12]"

text \<open>Fifteen equal closes: neither a gain nor a loss in the 14 moves.\<close>

definition rsi_flat :: "bar list" where
  "rsi_flat = bars_of [12, 12, 12, 12, 12, 12, 12, 12, 12, 12, 12, 12, 12, 12, 12]"

text \<open>Sixteen closes, one rise and then none: the 14 moves into the last bar are all zero.\<close>

definition rsi_settled :: "bar list" where
  "rsi_settled = bars_of [11, 12, 12, 12, 12, 12, 12, 12, 12, 12, 12, 12, 12, 12, 12, 12]"

text \<open>Fifteen closes that go up by one and down by one in turn.\<close>

definition rsi_alternating :: "bar list" where
  "rsi_alternating = bars_of [10, 11, 10, 11, 10, 11, 10, 11, 10, 11, 10, 11, 10, 11, 10]"

section \<open>Basic facts about the Series operations\<close>

lemma round_half_even_0: "round_half_even 0 = 0"
  by (simp add: round_half_even_def)

lemma round_real_0: "round_real 0 n = 0"
  by (simp add: round_real_def round_half_even_0)

lemma length_shift1: "length (shift1 xs) = length xs"
  by (cases xs rule: rev_cases) (simp_all add: shift1_def)

lemma shift1_nth: "i < length xs \<Longrightarrow> shift1 xs ! i = (if i = 0 then NaN else xs ! (i - 1))"
  by (cases i) (auto simp: shift1_def nth_butlast)

lemma length_closes: "length (closes hist) = length hist"
  by (simp add: closes_def)

lemma closes_nth: "i < length hist \<Longrightarrow> closes hist ! i = Fin (Close (hist ! i))"
  by (simp add: closes_def)

lemma length_diff: "length (diff xs) = length xs"
  by (simp add: diff_def length_shift1)

lemma diff_closes_nth:
  "i < length hist \<Longrightarrow> diff (closes hist) ! i =
     (if i = 0 then NaN else Fin (Close (hist ! i) - Close (hist ! (i - 1))))"
  by (simp add: diff_def length_shift1 shift1_nth length_closes closes_nth fsub_def)

lemma length_pct_change: "length (pct_change xs) = length xs"
  by (simp add: pct_change_def length_shift1)

lemma pct_change_closes_nth:
  "i < length hist \<Longrightarrow> pct_change (closes hist) ! i =
     (if i = 0 then NaN else fsub (fdiv (Fin (Close (hist ! i))) (Fin (Close (hist ! (i - 1))))) (Fin 1))"
  by (simp add: pct_change_def length_shift1 shift1_nth length_closes closes_nth fsub_def)

lemma window_nth: "i < length xs \<Longrightarrow> window w xs i = map ((!) xs) [Suc i - w..<Suc i]"
proof -
  assume i: "i < length xs"
  have "take (Suc i) xs = map ((!) xs) [0..<Suc i]"
    using i by (metis Suc_leI map_nth take_map take_upt add_0) 
  then show ?thesis
    by (simp add: window_def drop_map)
qed

lemma finite_vals_map_Fin: "finite_vals (map (\<lambda>k. Fin (g k)) ks) = map g ks"
  by (induction ks) simp_all

lemma length_finite_vals: "length (finite_vals xs) \<le> length xs"
  by (induction xs rule: finite_vals.induct) simp_all

lemma length_rolling: "length (rolling w f xs) = length xs"
  by (simp add: rolling_def)

lemma rolling_nth:
  "i < length xs \<Longrightarrow> rolling w f xs ! i =
     (let obs = finite_vals (window w xs i) in if w \<le> length obs then Fin (f obs) else NaN)"
  by (simp add: rolling_def)

lemma rolling_early:
  assumes "i < length xs" "Suc i < w"
  shows "rolling w f xs ! i = NaN"
proof -
  have "length (window w xs i) \<le> Suc i"
    by (simp add: window_def)
  then have "length (finite_vals (window w xs i)) < w"
    using length_finite_vals [of "window w xs i"] assms(2) by linarith
  then show ?thesis using assms(1) by (simp add: rolling_nth)
qed

lemma rolling_full:
  assumes "i < length xs" "w \<le> Suc i" "\<And>k. Suc i - w \<le> k \<Longrightarrow> k \<le> i \<Longrightarrow> xs ! k = Fin (g k)"
  shows "rolling w f xs ! i = Fin (f (map g [Suc i - w..<Suc i]))"
proof -
  have "map ((!) xs) [Suc i - w..<Suc i] = map (\<lambda>k. Fin (g k)) [Suc i - w..<Suc i]"
    by (rule map_cong) (auto intro: assms(3))
  then have "finite_vals (window w xs i) = map g [Suc i - w..<Suc i]"
    by (simp only: window_nth [OF assms(1)] finite_vals_map_Fin)
  then show ?thesis using assms(1,2) by (simp add: rolling_nth del: upt_Suc)
qed

lemma bars_of_nth: "i < length cs \<Longrightarrow> Close (bars_of cs ! i) = cs ! i"
  by (simp add: bars_of_def)

lemma length_bars_of: "length (bars_of cs) = length cs"
  by (simp add: bars_of_def)

lemma rolling_mean_closes:
  assumes "0 < w" and "i < length hist"
  shows "rolling_mean w (closes hist) ! i =
     (if w - 1 \<le> i then Fin ((\<Sum>k = Suc i - w..i. Close (hist ! k)) / real w) else NaN)"
proof (cases "w - 1 \<le> i")
  case True
  then have w: "w \<le> Suc i" by simp
  have fin: "closes hist ! k = Fin (Close (hist ! k))" if "k \<le> i" for k
    using that assms(2) by (simp add: closes_nth)
  have "rolling_mean w (closes hist) ! i =
          Fin (mean_r (map (\<lambda>k. Close (hist ! k)) [Suc i - w..<Suc i]))"
    unfolding rolling_mean_def
    using assms(2) w fin by (intro rolling_full) (simp_all add: length_closes)
  moreover have "sum_list (map (\<lambda>k. Close (hist ! k)) [Suc i - w..<Suc i]) =
                   (\<Sum>k = Suc i - w..i. Close (hist ! k))"
    by (simp only: interv_sum_list_conv_sum_set_nat set_upt atLeastLessThanSuc_atLeastAtMost)
  moreover have "length (map (\<lambda>k. Close (hist ! k)) [Suc i - w..<Suc i]) = w"
    using w assms(1) by (simp del: upt_Suc)
  ultimately show ?thesis using True by (simp only: mean_r_def if_True)
next
  case False
  then have "Suc i < w" using assms(1) by simp
  then have "rolling_mean w (closes hist) ! i = NaN"
    unfolding rolling_mean_def using assms(2) by (intro rolling_early) (simp_all add: length_closes)
  then show ?thesis using False by simp
qed

section \<open>Moving averages\<close>

text \<open>
  Claim C4. For every history and every window \<open>w\<close> (50 and 200 in the program) the simple
  moving average is as long as the history; at an index \<open>i \<ge> w - 1\<close> it is the arithmetic
  mean of the closes at \<open>i - w + 1 .. i\<close>, and at an index \<open>i < w - 1\<close> it is the marker
  \<^verbatim>\<open>NaN\<close> for a value that is not yet available: not 0 and not the mean of a shorter
  window. The chart's two averages are this series for \<open>w = 50\<close> and \<open>w = 200\<close>.
\<close>

theorem sma_is_trailing_mean:
  assumes "0 < w" and "i < length hist"
  shows "length (rolling_mean w (closes hist)) = length hist
       \<and> rolling_mean w (closes hist) ! i =
           (if w - 1 \<le> i then Fin ((\<Sum>k = Suc i - w..i. Close (hist ! k)) / real w) else NaN)
       \<and> MA50 (chart_json (build_snapshot tk hist prof pct)) = rolling_mean 50 (closes hist)
       \<and> MA200 (chart_json (build_snapshot tk hist prof pct)) = rolling_mean 200 (closes hist)"
  using rolling_mean_closes [OF assms]
  by (simp add: rolling_mean_def length_rolling length_closes build_snapshot_def Let_def)

theorem sma_is_trailing_mean_witness:
  "0 < (3::nat) \<and> 3 < length (bars_of [10, 20, 30, 46])
 \<and> rolling_mean 3 (closes (bars_of [10, 20, 30, 46])) ! 3 = Fin 32
 \<and> rolling_mean 3 (closes (bars_of [10, 20, 30, 46])) ! 2 = Fin 20
 \<and> rolling_mean 3 (closes (bars_of [10, 20, 30, 46])) ! 1 = NaN"
  using sma_is_trailing_mean [of 3 3 "bars_of [10, 20, 30, 46]"]
        sma_is_trailing_mean [of 3 2 "bars_of [10, 20, 30, 46]"]
        sma_is_trailing_mean [of 3 1 "bars_of [10, 20, 30, 46]"]
  by (simp add: bars_of_def atLeastAtMost_upt upt_rec)

section \<open>Daily returns\<close>

lemma pct_change_closes:
  assumes "hist \<noteq> []" and "\<forall>b\<in>set hist. Close b \<noteq> 0"
  shows "pct_change (closes hist) =
           NaN # map (\<lambda>i. Fin (Close (hist ! i) / Close (hist ! (i - 1)) - 1)) [1..<length hist]"
proof (rule nth_equalityI)
  show "length (pct_change (closes hist)) =
          length (NaN # map (\<lambda>i. Fin (Close (hist ! i) / Close (hist ! (i - 1)) - 1)) [1..<length hist])"
    using assms(1) by (simp add: length_pct_change length_closes del: upt_Suc)
next
  fix i assume "i < length (pct_change (closes hist))"
  then have i: "i < length hist" by (simp add: length_pct_change length_closes)
  show "pct_change (closes hist) ! i =
          (NaN # map (\<lambda>i. Fin (Close (hist ! i) / Close (hist ! (i - 1)) - 1)) [1..<length hist]) ! i"
  proof (cases i)
    case 0
    then show ?thesis using i by (simp add: pct_change_closes_nth)
  next
    case (Suc j)
    have "hist ! j \<in> set hist" using Suc i by simp
    then have "Close (hist ! j) \<noteq> 0" using assms(2) by blast
    then show ?thesis using Suc i
      by (simp add: pct_change_closes_nth fsub_def del: upt_Suc)
  qed
qed

lemma dropna_Fin: "dropna (map (\<lambda>i. Fin (g i)) ks) = map (\<lambda>i. Fin (g i)) ks"
  by (induction ks) (simp_all add: dropna_def)

text \<open>
  Claim C5. For every non-empty history of length \<open>n\<close> (closes are non-zero: the data model
  has them positive), the return series is the list of \<open>close[i] / close[i-1] - 1\<close> for
  \<open>i = 1 .. n-1\<close>; it has length \<open>n - 1\<close>, and it is empty for \<open>n = 1\<close>.
\<close>

theorem daily_returns_from_closes:
  assumes "hist \<noteq> []" and "\<forall>b\<in>set hist. Close b \<noteq> 0"
  shows "daily_returns hist =
           map (\<lambda>i. Fin (Close (hist ! i) / Close (hist ! (i - 1)) - 1)) [1..<length hist]
       \<and> length (daily_returns hist) = length hist - 1
       \<and> (length hist = 1 \<longrightarrow> daily_returns hist = [])"
proof -
  have "dropna (NaN # map (\<lambda>i. Fin (Close (hist ! i) / Close (hist ! (i - 1)) - 1)) [1..<length hist])
          = map (\<lambda>i. Fin (Close (hist ! i) / Close (hist ! (i - 1)) - 1)) [1..<length hist]"
    using dropna_Fin [of "\<lambda>i. Close (hist ! i) / Close (hist ! (i - 1)) - 1" "[1..<length hist]"]
    by (simp add: dropna_def)
  then have eq: "daily_returns hist =
           map (\<lambda>i. Fin (Close (hist ! i) / Close (hist ! (i - 1)) - 1)) [1..<length hist]"
    by (simp only: daily_returns_def pct_change_closes [OF assms])
  show ?thesis
    by (simp add: eq)
qed

theorem daily_returns_from_closes_witness:
  "bars_of [100, 110, 99] \<noteq> [] \<and> list_all (\<lambda>b. Close b \<noteq> 0) (bars_of [100, 110, 99])
 \<and> daily_returns (bars_of [100, 110, 99]) = [Fin (1 / 10), Fin (- 1 / 10)]
 \<and> daily_returns (bars_of [100]) = []"
  using daily_returns_from_closes [of "bars_of [100, 110, 99]"]
        daily_returns_from_closes [of "bars_of [100]"]
  by (simp add: bars_of_def upt_rec)

section \<open>Normalisation for the comparison\<close>

lemma norm_pct_nth:
  assumes "i < length hist" and "Close (hd hist) \<noteq> 0"
  shows "norm_pct hist ! i = Fin ((Close (hist ! i) / Close (hist ! 0) - 1) * 100)"
proof -
  from assms(1) have ne: "hist \<noteq> []" by auto
  then have "hd (closes hist) = Fin (Close (hist ! 0))"
    by (simp add: closes_def hd_map hd_conv_nth)
  moreover have "Close (hist ! 0) \<noteq> 0" using assms(2) ne by (simp add: hd_conv_nth)
  ultimately show ?thesis using assms(1)
    by (simp add: norm_pct_def closes_def fsub_def)
qed

text \<open>
  Claim C7. For every non-empty history in a comparison (the first close is non-zero: the
  data model has it positive), the normalised sequence is as long as the history, its value
  at \<open>i\<close> is \<open>(close[i] / close[0] - 1) \<times> 100\<close>, its first value is 0, and a history
  whose closes are a positive multiple of these closes has the same normalised sequence.
\<close>

theorem norm_percentage_path:
  assumes "hist \<noteq> []" and "Close (hd hist) \<noteq> 0"
  shows "length (norm_pct hist) = length hist
       \<and> (\<forall>i<length hist. norm_pct hist ! i = Fin ((Close (hist ! i) / Close (hist ! 0) - 1) * 100))
       \<and> norm_pct hist ! 0 = Fin 0
       \<and> (\<forall>k hist'. 0 < k \<and> map Close hist' = map (\<lambda>c. k * c) (map Close hist)
             \<longrightarrow> norm_pct hist' = norm_pct hist)"
proof (intro conjI allI impI)
  show len: "length (norm_pct hist) = length hist" by (simp add: norm_pct_def closes_def)
  show "norm_pct hist ! i = Fin ((Close (hist ! i) / Close (hist ! 0) - 1) * 100)"
    if "i < length hist" for i
    using that assms(2) by (rule norm_pct_nth)
  have "0 < length hist" using assms(1) by simp
  then have "norm_pct hist ! 0 = Fin ((Close (hist ! 0) / Close (hist ! 0) - 1) * 100)"
    using assms(2) by (rule norm_pct_nth)
  moreover have "Close (hist ! 0) \<noteq> 0" using assms by (simp add: hd_conv_nth)
  ultimately show "norm_pct hist ! 0 = Fin 0" by simp
next
  fix k :: real and hist' :: "bar list"
  assume h: "0 < k \<and> map Close hist' = map (\<lambda>c. k * c) (map Close hist)"
  then have k: "k \<noteq> 0" and m: "map Close hist' = map (\<lambda>c. k * c) (map Close hist)" by auto
  from m have len: "length hist' = length hist"
    by (metis length_map)
  have cl: "Close (hist' ! i) = k * Close (hist ! i)" if "i < length hist" for i
  proof -
    have "map Close hist' ! i = map (\<lambda>c. k * c) (map Close hist) ! i" using m by simp
    then show ?thesis using that len by simp
  qed
  have ne': "hist' \<noteq> []" using len assms(1) by auto
  have c0: "Close (hd hist') = k * Close (hd hist)"
    using cl [of 0] assms(1) ne' by (simp add: hd_conv_nth)
  then have nz: "Close (hd hist') \<noteq> 0" using k assms(2) by simp
  show "norm_pct hist' = norm_pct hist"
  proof (rule nth_equalityI)
    show "length (norm_pct hist') = length (norm_pct hist)" by (simp add: norm_pct_def closes_def len)
  next
    fix i assume "i < length (norm_pct hist')"
    then have i: "i < length hist" by (simp add: norm_pct_def closes_def len)
    then have i': "i < length hist'" using len by simp
    have "0 < length hist" using assms(1) by simp
    then have "Close (hist' ! 0) = k * Close (hist ! 0)" by (rule cl)
    then show "norm_pct hist' ! i = norm_pct hist ! i"
      using k by (simp add: norm_pct_nth [OF i' nz] norm_pct_nth [OF i assms(2)] cl [OF i])
  qed
qed

theorem norm_percentage_path_witness:
  "bars_of [100, 110, 121] \<noteq> [] \<and> Close (hd (bars_of [100, 110, 121])) \<noteq> 0
 \<and> norm_pct (bars_of [100, 110, 121]) = [Fin 0, Fin 10, Fin 21]
 \<and> norm_pct (bars_of [50, 55, 605 / 10]) = norm_pct (bars_of [100, 110, 121])"
proof -
  let ?a = "bars_of [100, 110, 121]" and ?b = "bars_of [50, 55, 605 / 10]"
  have ne: "?a \<noteq> []" and nz: "Close (hd ?a) \<noteq> 0" by (simp_all add: bars_of_def)
  note t = norm_percentage_path [OF ne nz]
  have "0 < (1 / 2 :: real) \<and> map Close ?b = map (\<lambda>c. (1 / 2) * c) (map Close ?a)"
    by (simp add: bars_of_def)
  with t have "norm_pct ?b = norm_pct ?a" by blast
  moreover have "norm_pct ?a = [Fin 0, Fin 10, Fin 21]"
  proof (rule nth_equalityI)
    show "length (norm_pct ?a) = length [Fin 0, Fin 10, Fin 21]" using t by (simp add: bars_of_def)
  next
    fix i assume "i < length (norm_pct ?a)"
    then have i: "i < length ?a" using t by simp
    then have "i = 0 \<or> i = 1 \<or> i = 2" by (auto simp: bars_of_def)
    moreover have "norm_pct ?a ! i = Fin ((Close (?a ! i) / Close (?a ! 0) - 1) * 100)" using t i by blast
    ultimately show "norm_pct ?a ! i = [Fin 0, Fin 10, Fin 21] ! i"
      by (auto simp: bars_of_def)
  qed
  ultimately show ?thesis using ne nz by simp
qed

section \<open>The latest price change\<close>

text \<open>
  Claim C10. For a history of exactly one bar the previous price is the current price, and
  the price change and the percentage change, before and after rounding, are 0. Whenever
  the previous price is 0 the percentage change is 0 and not a \<^verbatim>\<open>ZeroDivisionError\<close>: the
  division is not made. On no history does line 27 raise.
\<close>

theorem one_bar_price_change:
  "(length hist = 1 \<longrightarrow>
      prev_price_of hist = current_price_of hist
    \<and> price_change_of hist = 0 \<and> price_change_pct_of hist = Inr 0
    \<and> price_change (build_snapshot tk hist prof 0) = 0
    \<and> price_change_pct (build_snapshot tk hist prof 0) = 0)
 \<and> (prev_price_of hist = 0 \<longrightarrow> price_change_pct_of hist = Inr 0)
 \<and> (\<exists>pct. price_change_pct_of hist = Inr pct)"
  by (simp add: prev_price_of_def price_change_of_def price_change_pct_of_def py_truediv_def
        build_snapshot_def Let_def round_real_0)

theorem one_bar_price_change_witness:
  "length (bars_of [5]) = 1
 \<and> price_change_of (bars_of [5]) = 0
 \<and> price_change_pct_of (bars_of [5]) = Inr 0
 \<and> price_change_pct (build_snapshot ''X'' (bars_of [5]) no_profile 0) = 0
 \<and> prev_price_of (bars_of [0, 3]) = 0
 \<and> price_change_of (bars_of [0, 3]) = 3
 \<and> price_change_pct_of (bars_of [0, 3]) = Inr 0"
  using one_bar_price_change [of "bars_of [5]" "''X''" no_profile]
        one_bar_price_change [of "bars_of [0, 3]" "''X''" no_profile]
  by (simp add: bars_of_def prev_price_of_def price_change_of_def current_price_of_def)

section \<open>The empty history\<close>

text \<open>
  With rows and a profile the function returns a snapshot: nothing after line 21 raises.
\<close>

lemma price_change_pct_total: "\<exists>pct. price_change_pct_of hist = Inr pct"
  by (simp add: price_change_pct_of_def py_truediv_def)

lemma fetch_stock_data_snapshot:
  assumes "history yf tk period = Inr hist" and "hist \<noteq> []" and "info yf tk = Inr i"
  shows "\<exists>pct. price_change_pct_of hist = Inr pct
             \<and> fetch_stock_data yf tk period =
                 Inr (Some (build_snapshot tk hist
                              (case i of Some p \<Rightarrow> p | None \<Rightarrow> no_profile) pct))"
proof -
  obtain pct where "price_change_pct_of hist = Inr pct"
    using price_change_pct_total by blast
  then show ?thesis using assms by (simp add: fetch_stock_data_def)
qed

lemma fetch_empty_history:
  "history yf tk period = Inr [] \<Longrightarrow> fetch_stock_data yf tk period = Inr None"
  by (simp add: fetch_stock_data_def)

lemma analyze_fetch_error:
  assumes "tk = upper (strip (case req_ticker data of Some t \<Rightarrow> t | None \<Rightarrow> ''''))"
      and "tk \<noteq> []"
      and "history yf tk (case req_period data of Some p \<Rightarrow> p | None \<Rightarrow> ''1y'') = Inl e"
  shows "analyze yf data = (Error e, 500)"
  using assms by (simp add: analyze_def fetch_stock_data_def Let_def)

text \<open>
  Claim C8. For every analyze request with a ticker, when the client returns a history
  with no rows, \<^verbatim>\<open>fetch_stock_data\<close> returns \<^verbatim>\<open>None\<close> whatever \<^verbatim>\<open>stock.info\<close> would do
  (it is not read, and no snapshot is built), and the response is the error message with
  status 404: not the status 500 of a fetch that raised, and not a result.
\<close>

theorem analyze_empty_history_not_found:
  assumes "tk = upper (strip (case req_ticker data of Some t \<Rightarrow> t | None \<Rightarrow> ''''))"
      and "tk \<noteq> []"
      and "period = (case req_period data of Some p \<Rightarrow> p | None \<Rightarrow> ''1y'')"
      and "history yf tk period = Inr []"
  shows "fetch_stock_data yf tk period = Inr None
       \<and> analyze yf data = (Error (not_found_message tk), 404)
       \<and> (\<forall>e. analyze yf data \<noteq> (Error e, 500))
       \<and> (\<forall>s. analyze yf data \<noteq> (Result s, 200))"
  using assms by (simp add: analyze_def fetch_empty_history Let_def)

lemma upper_zzzz: "upper (strip ''zzzz '') = ''ZZZZ''"
  by code_simp

theorem analyze_empty_history_not_found_witness:
  "''ZZZZ'' = upper (strip (case req_ticker \<lparr>req_ticker = Some ''zzzz '', req_period = None\<rparr>
                             of Some t \<Rightarrow> t | None \<Rightarrow> ''''))
 \<and> ''ZZZZ'' \<noteq> []
 \<and> history demo_source ''ZZZZ'' ''1y'' = Inr []
 \<and> info demo_source ''ZZZZ'' = Inl ''HTTP Error 404''
 \<and> analyze demo_source \<lparr>req_ticker = Some ''zzzz '', req_period = None\<rparr>
     = (Error (not_found_message ''ZZZZ''), 404)"
proof -
  let ?d = "\<lparr>req_ticker = Some ''zzzz '', req_period = None\<rparr>"
  have a: "''ZZZZ'' = upper (strip (case req_ticker ?d of Some t \<Rightarrow> t | None \<Rightarrow> ''''))"
    by (simp add: upper_zzzz)
  have b: "''ZZZZ'' \<noteq> []" by simp
  have c: "''1y'' = (case req_period ?d of Some p \<Rightarrow> p | None \<Rightarrow> ''1y'')" by simp
  have d: "history demo_source ''ZZZZ'' ''1y'' = Inr []" by (simp add: demo_source_def)
  have e: "info demo_source ''ZZZZ'' = Inl ''HTTP Error 404''" by (simp add: demo_source_def)
  from analyze_empty_history_not_found [OF a b c d] a b d e show ?thesis by blast
qed

section \<open>The comparison loop\<close>

lemma compare_loop_traces:
  "compare_loop yf period tks traces =
     traces @ map (trace_of yf period) (filter (\<lambda>tk. fetched yf period tk \<noteq> None) tks)"
proof (induction tks arbitrary: traces)
  case Nil
  show ?case by simp
next
  case (Cons tk tks)
  show ?case
  proof (cases "history yf tk period")
    case (Inl e)
    then show ?thesis by (simp add: Cons.IH fetched_def)
  next
    case (Inr hist)
    then show ?thesis by (simp add: Cons.IH fetched_def trace_of_def)
  qed
qed

text \<open>
  Claim C9. For every comparison request, the traces are exactly those of the tickers
  whose history could be fetched and has rows, in the order of the request, each with the
  normalised sequence of its history; a ticker whose fetch raised or returned no rows adds
  nothing. When that is so for every ticker, the list of traces is empty.
\<close>

theorem compare_stocks_skips_failures:
  "compare_stocks yf tickers period =
     map (trace_of yf period) (filter (\<lambda>tk. fetched yf period tk \<noteq> None) tickers)
 \<and> ((\<forall>tk\<in>set tickers. fetched yf period tk = None) \<longrightarrow> compare_stocks yf tickers period = [])"
proof -
  have eq: "compare_stocks yf tickers period =
     map (trace_of yf period) (filter (\<lambda>tk. fetched yf period tk \<noteq> None) tickers)"
    by (simp add: compare_stocks_def compare_loop_traces)
  have "filter (\<lambda>tk. fetched yf period tk \<noteq> None) tickers = []"
    if "\<forall>tk\<in>set tickers. fetched yf period tk = None"
    using that by (simp add: filter_empty_conv)
  then show ?thesis using eq by simp
qed

theorem compare_stocks_skips_failures_witness:
  "compare_stocks demo_source [''AAA'', ''QQQQ'', ''ZZZZ''] ''1y''
     = [\<lparr>trace_name = ''AAA'', trace_y = [Fin 0, Fin 10, Fin 21]\<rparr>]
 \<and> fetched demo_source ''1y'' ''QQQQ'' = None \<and> fetched demo_source ''1y'' ''ZZZZ'' = None
 \<and> compare_stocks demo_source [''QQQQ'', ''ZZZZ''] ''1y'' = []"
proof -
  have f: "\<forall>tk\<in>set [''QQQQ'', ''ZZZZ'']. fetched demo_source ''1y'' tk = None"
    by (simp add: fetched_def demo_source_def)
  have g: "fetched demo_source ''1y'' ''AAA'' = Some (bars_of [100, 110, 121])"
    by (simp add: fetched_def demo_source_def bars_of_def)
  have u: "upper ''AAA'' = ''AAA''"
    by code_simp
  have n: "norm_pct (bars_of [100, 110, 121]) = [Fin 0, Fin 10, Fin 21]"
    by (simp add: norm_pct_def closes_def bars_of_def fsub_def)
  have "compare_stocks demo_source [''AAA'', ''QQQQ'', ''ZZZZ''] ''1y''
          = [\<lparr>trace_name = ''AAA'', trace_y = [Fin 0, Fin 10, Fin 21]\<rparr>]"
    using compare_stocks_skips_failures [of demo_source "[''AAA'', ''QQQQ'', ''ZZZZ'']" "''1y''"] f g
    by (simp add: trace_of_def u n)
  moreover have "compare_stocks demo_source [''QQQQ'', ''ZZZZ''] ''1y'' = []"
    using compare_stocks_skips_failures [of demo_source "[''QQQQ'', ''ZZZZ'']" "''1y''"] f
    by blast
  ultimately show ?thesis using f by simp
qed

section \<open>Bollinger bands\<close>

lemma std_r_nonneg: "0 \<le> std_r xs"
proof -
  have "0 \<le> sum_list (map (\<lambda>x. (x - mean_r xs)\<^sup>2) xs)"
    by (rule sum_list_nonneg) auto
  then show ?thesis by (simp add: std_r_def)
qed

lemma rolling_cases:
  assumes "i < length xs"
  shows "(rolling w f xs ! i = NaN \<and> rolling w g xs ! i = NaN)
       \<or> (\<exists>obs. rolling w f xs ! i = Fin (f obs) \<and> rolling w g xs ! i = Fin (g obs))"
  using assms by (auto simp: rolling_nth Let_def)

lemma length_bb:
  "length (bb_mid cl) = length cl" "length (bb_std cl) = length cl"
  "length (bb_upper cl) = length cl" "length (bb_lower cl) = length cl"
  by (simp_all add: bb_mid_def bb_std_def bb_upper_def bb_lower_def rolling_mean_def
        length_rolling)

lemma bb_upper_nth:
  "i < length cl \<Longrightarrow> bb_upper cl ! i = fadd (bb_mid cl ! i) (fmul (Fin 2) (bb_std cl ! i))"
  by (simp add: bb_upper_def length_bb)

lemma bb_lower_nth:
  "i < length cl \<Longrightarrow> bb_lower cl ! i = fsub (bb_mid cl ! i) (fmul (Fin 2) (bb_std cl ! i))"
  by (simp add: bb_lower_def length_bb)

lemma bb_mid_std_cases:
  assumes "i < length cl"
  shows "(bb_mid cl ! i = NaN \<and> bb_std cl ! i = NaN)
       \<or> (\<exists>m s. bb_mid cl ! i = Fin m \<and> bb_std cl ! i = Fin s \<and> 0 \<le> s)"
  using rolling_cases [OF assms, of 20 mean_r std_r] std_r_nonneg
  by (auto simp: bb_mid_def bb_std_def rolling_mean_def)

text \<open>
  Claim C6. For every history, at every index where the Bollinger midline, the upper band
  and the lower band (window 20, \<open>k = 2\<close>) are all defined, the upper band is at least the
  midline and the midline at least the lower band: the upper band is the midline plus twice
  the rolling sample standard deviation, the lower band the midline minus twice that, and
  the standard deviation is not negative.
\<close>

theorem bollinger_bands_ordered:
  assumes "i < length hist"
      and "bb_mid (closes hist) ! i = Fin m"
      and "bb_upper (closes hist) ! i = Fin u"
      and "bb_lower (closes hist) ! i = Fin l"
  shows "l \<le> m \<and> m \<le> u
       \<and> (\<exists>s. bb_std (closes hist) ! i = Fin s \<and> 0 \<le> s \<and> u = m + 2 * s \<and> l = m - 2 * s)"
proof -
  have i: "i < length (closes hist)" using assms(1) by (simp add: length_closes)
  from bb_mid_std_cases [OF i] assms(2)
  obtain s where s: "bb_std (closes hist) ! i = Fin s" "0 \<le> s" by auto
  have "u = m + 2 * s" using assms(2,3) s(1) by (simp add: bb_upper_nth [OF i])
  moreover have "l = m - 2 * s" using assms(2,4) s(1) by (simp add: bb_lower_nth [OF i] fsub_def)
  ultimately show ?thesis using s by auto
qed

lemma bollinger_defined:
  assumes "i < length hist" and "19 \<le> i"
  shows "\<exists>m u l. bb_mid (closes hist) ! i = Fin m \<and> bb_upper (closes hist) ! i = Fin u
             \<and> bb_lower (closes hist) ! i = Fin l"
proof -
  have i: "i < length (closes hist)" using assms(1) by (simp add: length_closes)
  have "bb_mid (closes hist) ! i \<noteq> NaN"
    using rolling_mean_closes [of 20 i hist] assms by (simp add: bb_mid_def)
  with bb_mid_std_cases [OF i]
  obtain m s where "bb_mid (closes hist) ! i = Fin m" "bb_std (closes hist) ! i = Fin s" by auto
  then show ?thesis by (simp add: bb_upper_nth [OF i] bb_lower_nth [OF i] fsub_def)
qed

lemma bollinger_early:
  assumes "i < length hist" and "i < 19"
  shows "bb_mid (closes hist) ! i = NaN \<and> bb_upper (closes hist) ! i = NaN
       \<and> bb_lower (closes hist) ! i = NaN"
proof -
  have i: "i < length (closes hist)" using assms(1) by (simp add: length_closes)
  have "rolling 20 f (closes hist) ! i = NaN" for f
    using i assms(2) by (intro rolling_early) simp_all
  then show ?thesis
    by (simp add: bb_upper_nth [OF i] bb_lower_nth [OF i] fsub_def bb_mid_def bb_std_def
          rolling_mean_def)
qed

lemma bb_demo_window: "finite_vals (window 20 (closes bb_demo) 19) =
   [16, 4, 11, 9, 11, 9, 10, 10, 10, 10, 10, 10, 10, 10, 10, 10, 10, 10, 10, 10]"
  by (simp add: window_def closes_def bb_demo_def bars_of_def)

lemma bb_demo_len: "19 < length (closes bb_demo)"
  by (simp add: closes_def bb_demo_def bars_of_def)

lemma bb_demo_mid: "bb_mid (closes bb_demo) ! 19 = Fin 10"
  using rolling_nth [OF bb_demo_len, of 20 mean_r]
  by (simp add: bb_mid_def rolling_mean_def bb_demo_window mean_r_def)

lemma bb_demo_std: "bb_std (closes bb_demo) ! 19 = Fin 2"
  using rolling_nth [OF bb_demo_len, of 20 std_r]
  by (simp add: bb_std_def bb_demo_window mean_r_def std_r_def)

theorem bollinger_bands_ordered_witness:
  "19 < length bb_demo
 \<and> bb_mid (closes bb_demo) ! 19 = Fin 10
 \<and> bb_upper (closes bb_demo) ! 19 = Fin 14
 \<and> bb_lower (closes bb_demo) ! 19 = Fin 6
 \<and> (6::real) \<le> 10 \<and> (10::real) \<le> 14"
proof -
  have i: "19 < length bb_demo" using bb_demo_len by (simp add: length_closes)
  have u: "bb_upper (closes bb_demo) ! 19 = Fin 14"
    by (simp add: bb_upper_nth [OF bb_demo_len] bb_demo_mid bb_demo_std)
  have l: "bb_lower (closes bb_demo) ! 19 = Fin 6"
    by (simp add: bb_lower_nth [OF bb_demo_len] bb_demo_mid bb_demo_std fsub_def)
  from bollinger_bands_ordered [OF i bb_demo_mid u l] i bb_demo_mid u l
  show ?thesis by simp
qed

section \<open>The relative strength index\<close>

lemma gains_nth:
  "i < length hist \<Longrightarrow> map (clip_lower 0) (diff (closes hist)) ! i =
     (if i = 0 then NaN else Fin (gain_at hist i))"
  by (simp add: length_diff length_closes diff_closes_nth gain_at_def delta_def)

lemma losses_nth:
  "i < length hist \<Longrightarrow> map (\<lambda>d. fneg (clip_upper 0 d)) (diff (closes hist)) ! i =
     (if i = 0 then NaN else Fin (loss_at hist i))"
  by (simp add: length_diff length_closes diff_closes_nth loss_at_def delta_def)

lemma finite_vals_NaN: "NaN \<in> set xs \<Longrightarrow> length (finite_vals xs) < length xs"
proof (induction xs)
  case Nil
  then show ?case by simp
next
  case (Cons x xs)
  have le: "length (finite_vals xs) \<le> length xs" by (rule length_finite_vals)
  show ?case
  proof (cases x)
    case (Fin a)
    then show ?thesis using Cons by simp
  next
    case PInf
    then show ?thesis using le by simp
  next
    case NInf
    then show ?thesis using le by simp
  next
    case NaN
    then show ?thesis using le by simp
  qed
qed

lemma rolling_nan_in_window:
  assumes "i < length xs" and "Suc i - w \<le> k" and "k \<le> i" and "xs ! k = NaN"
  shows "rolling w f xs ! i = NaN"
proof -
  have "k \<in> set [Suc i - w..<Suc i]" using assms(2,3) by (auto simp del: upt_Suc)
  then have "xs ! k \<in> set (map ((!) xs) [Suc i - w..<Suc i])"
    by (simp only: set_map image_eqI)
  then have "NaN \<in> set (window w xs i)"
    using assms(1,4) by (simp only: window_nth)
  then have "length (finite_vals (window w xs i)) < length (window w xs i)"
    by (rule finite_vals_NaN)
  moreover have "length (window w xs i) \<le> w"
    by (simp add: window_def)
  ultimately show ?thesis using assms(1) by (simp add: rolling_nth)
qed

lemma length_rsi:
  "length (rsi_gain cl) = length cl" "length (rsi_loss cl) = length cl"
  "length (rsi_rs cl) = length cl" "length (rsi_series cl) = length cl"
  by (simp_all add: rsi_gain_def rsi_loss_def rsi_rs_def rsi_series_def rolling_mean_def
        length_rolling length_diff)

lemma rsi_series_nth:
  "i < length cl \<Longrightarrow> rsi_series cl ! i =
     fsub (Fin 100) (fdiv (Fin 100) (fadd (Fin 1) (fdiv (rsi_gain cl ! i) (rsi_loss cl ! i))))"
  by (simp add: rsi_series_def rsi_rs_def length_rsi)

lemma rsi_early:
  assumes "i < length hist" and "i < 14"
  shows "rsi_gain (closes hist) ! i = NaN \<and> rsi_loss (closes hist) ! i = NaN
       \<and> rsi_series (closes hist) ! i = NaN"
proof -
  have pos: "0 < length hist" using assms(1) by (cases hist) simp_all
  have g0: "map (clip_lower 0) (diff (closes hist)) ! 0 = NaN"
    by (simp add: gains_nth [OF pos])
  have l0: "map (\<lambda>d. fneg (clip_upper 0 d)) (diff (closes hist)) ! 0 = NaN"
    by (simp add: losses_nth [OF pos])
  have g: "rsi_gain (closes hist) ! i = NaN"
    unfolding rsi_gain_def rolling_mean_def
    using assms g0 by (intro rolling_nan_in_window [where k = 0])
      (simp_all add: length_diff length_closes)
  have l: "rsi_loss (closes hist) ! i = NaN"
    unfolding rsi_loss_def rolling_mean_def
    using assms l0 by (intro rolling_nan_in_window [where k = 0])
      (simp_all add: length_diff length_closes)
  show ?thesis using g l assms(1) by (simp add: rsi_series_nth length_closes fsub_def)
qed

lemma rsi_gain_nth:
  assumes "i < length hist" and "14 \<le> i"
  shows "rsi_gain (closes hist) ! i = Fin (mean_r (map (gain_at hist) [i - 13..<Suc i]))"
proof -
  have "rolling 14 mean_r (map (clip_lower 0) (diff (closes hist))) ! i =
          Fin (mean_r (map (gain_at hist) [Suc i - 14..<Suc i]))"
  proof (rule rolling_full)
    show "i < length (map (clip_lower 0) (diff (closes hist)))"
      using assms(1) by (simp add: length_diff length_closes)
    show "14 \<le> Suc i" using assms(2) by simp
    show "map (clip_lower 0) (diff (closes hist)) ! k = Fin (gain_at hist k)"
      if "Suc i - 14 \<le> k" "k \<le> i" for k
      using that assms gains_nth [of k hist] by simp
  qed
  then show ?thesis by (simp add: rsi_gain_def rolling_mean_def del: upt_Suc)
qed

lemma rsi_loss_nth:
  assumes "i < length hist" and "14 \<le> i"
  shows "rsi_loss (closes hist) ! i = Fin (mean_r (map (loss_at hist) [i - 13..<Suc i]))"
proof -
  have "rolling 14 mean_r (map (\<lambda>d. fneg (clip_upper 0 d)) (diff (closes hist))) ! i =
          Fin (mean_r (map (loss_at hist) [Suc i - 14..<Suc i]))"
  proof (rule rolling_full)
    show "i < length (map (\<lambda>d. fneg (clip_upper 0 d)) (diff (closes hist)))"
      using assms(1) by (simp add: length_diff length_closes)
    show "14 \<le> Suc i" using assms(2) by simp
    show "map (\<lambda>d. fneg (clip_upper 0 d)) (diff (closes hist)) ! k = Fin (loss_at hist k)"
      if "Suc i - 14 \<le> k" "k \<le> i" for k
      using that assms losses_nth [of k hist] by simp
  qed
  then show ?thesis by (simp add: rsi_loss_def rolling_mean_def del: upt_Suc)
qed

lemma mean_r_nonneg: "(\<And>x. x \<in> set xs \<Longrightarrow> 0 \<le> x) \<Longrightarrow> 0 \<le> mean_r xs"
  by (simp add: mean_r_def sum_list_nonneg)

lemma mean_r_zero_iff:
  assumes "\<And>x. x \<in> set xs \<Longrightarrow> 0 \<le> x" and "xs \<noteq> []"
  shows "mean_r xs = 0 \<longleftrightarrow> (\<forall>x\<in>set xs. x = 0)"
  using assms by (simp add: mean_r_def sum_list_nonneg_eq_0_iff)

lemma rsi_means_nonneg:
  assumes "i < length hist" and "14 \<le> i"
  shows "\<exists>g l. 0 \<le> g \<and> 0 \<le> l \<and> rsi_gain (closes hist) ! i = Fin g
             \<and> rsi_loss (closes hist) ! i = Fin l"
proof -
  have "0 \<le> mean_r (map (gain_at hist) [i - 13..<Suc i])"
    by (rule mean_r_nonneg) (auto simp: gain_at_def)
  moreover have "0 \<le> mean_r (map (loss_at hist) [i - 13..<Suc i])"
    by (rule mean_r_nonneg) (auto simp: loss_at_def)
  ultimately show ?thesis
    using rsi_gain_nth [OF assms] rsi_loss_nth [OF assms] by blast
qed

lemma rsi_point:
  assumes "0 \<le> g" and "0 \<le> l"
  shows "fsub (Fin 100) (fdiv (Fin 100) (fadd (Fin 1) (fdiv (Fin g) (Fin l)))) =
           (if l \<noteq> 0 then Fin (100 - 100 / (1 + g / l))
            else if 0 < g then Fin 100 else NaN)"
proof (cases "l = 0")
  case True
  then show ?thesis using assms(1) by (auto simp: fsub_def)
next
  case False
  then have "0 \<le> g / l" using assms by simp
  then have "1 + g / l \<noteq> 0" by linarith
  then show ?thesis using False by (simp add: fsub_def)
qed

lemma rsi_point_bounds:
  assumes "0 \<le> g" and "0 < l"
  shows "0 \<le> 100 - 100 / (1 + g / l)" and "100 - 100 / (1 + g / l) \<le> (100::real)"
proof -
  have "0 \<le> g / l" using assms by simp
  then have one: "1 \<le> 1 + g / l" by simp
  then have "100 / (1 + g / l) \<le> 100 / 1"
    by (intro divide_left_mono) simp_all
  then show "0 \<le> 100 - 100 / (1 + g / l)" by simp
  have "0 \<le> 100 / (1 + g / l)" using one by simp
  then show "100 - 100 / (1 + g / l) \<le> (100::real)" by simp
qed

lemma rsi_loss_zero_iff:
  assumes "i < length hist" and "14 \<le> i"
  shows "rsi_loss (closes hist) ! i = Fin 0 \<longleftrightarrow>
           (\<forall>k\<in>{i - 13..i}. Close (hist ! (k - 1)) \<le> Close (hist ! k))"
proof -
  have "mean_r (map (loss_at hist) [i - 13..<Suc i]) = 0 \<longleftrightarrow>
          (\<forall>x\<in>set (map (loss_at hist) [i - 13..<Suc i]). x = 0)"
    using assms(2) by (intro mean_r_zero_iff) (auto simp: loss_at_def simp del: upt_Suc)
  also have "\<dots> \<longleftrightarrow> (\<forall>k\<in>{i - 13..i}. loss_at hist k = 0)"
    by (auto simp del: upt_Suc)
  also have "\<dots> \<longleftrightarrow> (\<forall>k\<in>{i - 13..i}. Close (hist ! (k - 1)) \<le> Close (hist ! k))"
    by (auto simp: loss_at_def delta_def min_def split: if_splits)
  finally show ?thesis by (simp add: rsi_loss_nth [OF assms])
qed

lemma rsi_gain_zero_iff:
  assumes "i < length hist" and "14 \<le> i"
  shows "rsi_gain (closes hist) ! i = Fin 0 \<longleftrightarrow>
           (\<forall>k\<in>{i - 13..i}. Close (hist ! k) \<le> Close (hist ! (k - 1)))"
proof -
  have "mean_r (map (gain_at hist) [i - 13..<Suc i]) = 0 \<longleftrightarrow>
          (\<forall>x\<in>set (map (gain_at hist) [i - 13..<Suc i]). x = 0)"
    using assms(2) by (intro mean_r_zero_iff) (auto simp: gain_at_def simp del: upt_Suc)
  also have "\<dots> \<longleftrightarrow> (\<forall>k\<in>{i - 13..i}. gain_at hist k = 0)"
    by (auto simp del: upt_Suc)
  also have "\<dots> \<longleftrightarrow> (\<forall>k\<in>{i - 13..i}. Close (hist ! k) \<le> Close (hist ! (k - 1)))"
    by (auto simp: gain_at_def delta_def max_def split: if_splits)
  finally show ?thesis by (simp add: rsi_gain_nth [OF assms])
qed

text \<open>
  Claim C2, as the code has it. For every history and every index where the 14-period
  rolling mean of the losses is 0 and the rolling mean of the gains is not 0, the RSI is
  exactly 100. (\<open>rsi_loss_zero_iff\<close> and \<open>rsi_gain_zero_iff\<close> say what the two conditions
  mean for the closes: no move of the window is a fall, and one of them is a rise.)
\<close>

theorem rsi_loss_free_is_100:
  assumes "i < length hist"
      and "rsi_loss (closes hist) ! i = Fin 0"
      and "rsi_gain (closes hist) ! i \<noteq> Fin 0"
  shows "rsi_series (closes hist) ! i = Fin 100"
proof -
  have i14: "14 \<le> i"
  proof (rule ccontr)
    assume "\<not> 14 \<le> i"
    then have "rsi_loss (closes hist) ! i = NaN" using rsi_early [OF assms(1)] by simp
    then show False using assms(2) by simp
  qed
  from rsi_means_nonneg [OF assms(1) i14] assms(2,3)
  obtain g where g: "0 < g" "rsi_gain (closes hist) ! i = Fin g" by force
  have "rsi_series (closes hist) ! i =
          fsub (Fin 100) (fdiv (Fin 100) (fadd (Fin 1) (fdiv (Fin g) (Fin 0))))"
    using assms(1,2) g(2) by (simp only: rsi_series_nth length_closes)
  also have "\<dots> = Fin 100" using g(1) by (simp add: fsub_def)
  finally show ?thesis .
qed

text \<open>
  Claim C3, as the code has it. For every history, at every index with enough history
  (\<open>i \<ge> 14\<close>) where the rolling means of the gains and of the losses are not both 0, the
  RSI is a finite number in the closed interval from 0 to 100.
\<close>

theorem rsi_bounded:
  assumes "i < length hist" and "14 \<le> i"
      and "\<not> (rsi_gain (closes hist) ! i = Fin 0 \<and> rsi_loss (closes hist) ! i = Fin 0)"
  shows "\<exists>r. rsi_series (closes hist) ! i = Fin r \<and> 0 \<le> r \<and> r \<le> 100"
proof -
  from rsi_means_nonneg [OF assms(1,2)]
  obtain g l where gl: "0 \<le> g" "0 \<le> l" "rsi_gain (closes hist) ! i = Fin g"
    "rsi_loss (closes hist) ! i = Fin l" by blast
  have eq: "rsi_series (closes hist) ! i =
          (if l \<noteq> 0 then Fin (100 - 100 / (1 + g / l)) else if 0 < g then Fin 100 else NaN)"
    using assms(1) gl by (simp only: rsi_series_nth length_closes rsi_point)
  show ?thesis
  proof (cases "l = 0")
    case True
    then have "0 < g" using assms(3) gl by auto
    then show ?thesis using eq True by simp
  next
    case False
    then have "0 < l" using gl(2) by simp
    from rsi_point_bounds [OF gl(1) this] eq False show ?thesis by simp
  qed
qed

text \<open>Where both means are 0 the quotient is \<^verbatim>\<open>0/0\<close>, and the RSI is \<^verbatim>\<open>NaN\<close>.\<close>

lemma rsi_flat_window:
  assumes "i < length hist" and "14 \<le> i"
      and "rsi_gain (closes hist) ! i = Fin 0" and "rsi_loss (closes hist) ! i = Fin 0"
  shows "rsi_series (closes hist) ! i = NaN"
  using assms by (simp add: rsi_series_nth length_closes fsub_def)

section \<open>The relative strength index on test data\<close>

lemma upt_1_15: "[14 - 13..<Suc 14] = [1, 2, 3, 4, 5, 6, 7, 8, 9, 10, 11, 12, 13, 14]"
  by (simp add: upt_rec)

lemma upt_2_16: "[15 - 13..<Suc 15] = [2, 3, 4, 5, 6, 7, 8, 9, 10, 11, 12, 13, 14, 15]"
  by (simp add: upt_rec)

lemma rsi_rising_len: "14 < length rsi_rising"
  by (simp add: rsi_rising_def bars_of_def)

lemma rsi_rising_loss: "rsi_loss (closes rsi_rising) ! 14 = Fin 0"
  by (simp only: rsi_loss_nth [OF rsi_rising_len order_refl] upt_1_15)
    (simp add: mean_r_def loss_at_def delta_def rsi_rising_def bars_of_def)

lemma rsi_rising_gain: "rsi_gain (closes rsi_rising) ! 14 = Fin (1 / 7)"
  by (simp only: rsi_gain_nth [OF rsi_rising_len order_refl] upt_1_15)
    (simp add: mean_r_def gain_at_def delta_def rsi_rising_def bars_of_def)

theorem rsi_loss_free_is_100_witness:
  "14 < length rsi_rising
 \<and> rsi_loss (closes rsi_rising) ! 14 = Fin 0
 \<and> rsi_gain (closes rsi_rising) ! 14 \<noteq> Fin 0
 \<and> rsi_series (closes rsi_rising) ! 14 = Fin 100"
proof -
  have g: "rsi_gain (closes rsi_rising) ! 14 \<noteq> Fin 0" by (simp add: rsi_rising_gain)
  from rsi_loss_free_is_100 [OF rsi_rising_len rsi_rising_loss g]
  show ?thesis using rsi_rising_len rsi_rising_loss g by simp
qed

lemma rsi_flat_len: "14 < length rsi_flat"
  by (simp add: rsi_flat_def bars_of_def)

lemma rsi_flat_loss: "rsi_loss (closes rsi_flat) ! 14 = Fin 0"
  by (simp only: rsi_loss_nth [OF rsi_flat_len order_refl] upt_1_15)
    (simp add: mean_r_def loss_at_def delta_def rsi_flat_def bars_of_def)

lemma rsi_flat_gain: "rsi_gain (closes rsi_flat) ! 14 = Fin 0"
  by (simp only: rsi_gain_nth [OF rsi_flat_len order_refl] upt_1_15)
    (simp add: mean_r_def gain_at_def delta_def rsi_flat_def bars_of_def)

text \<open>
  Claim C2 as stated fails on fifteen equal closes: at index 14 the rolling mean of the
  losses is 0, and the RSI is \<^verbatim>\<open>NaN\<close>, not 100; the snapshot reports that \<^verbatim>\<open>NaN\<close>.
\<close>

theorem rsi_flat_window_counterexample:
  "14 < length rsi_flat
 \<and> rsi_loss (closes rsi_flat) ! 14 = Fin 0
 \<and> rsi_series (closes rsi_flat) ! 14 = NaN
 \<and> rsi_series (closes rsi_flat) ! 14 \<noteq> Fin 100
 \<and> rsi (build_snapshot ''FLAT'' rsi_flat no_profile 0) = NaN"
proof -
  have n: "rsi_series (closes rsi_flat) ! 14 = NaN"
    using rsi_flat_len order_refl rsi_flat_gain rsi_flat_loss by (rule rsi_flat_window)
  have "length (rsi_series (closes rsi_flat)) = 15"
    by (simp add: length_rsi length_closes) (simp add: rsi_flat_def bars_of_def)
  then have "last (rsi_series (closes rsi_flat)) = rsi_series (closes rsi_flat) ! 14"
    by (simp add: last_conv_nth [OF length_greater_0_conv [THEN iffD1]])
  then have "rsi (build_snapshot ''FLAT'' rsi_flat no_profile 0) = NaN"
    using n by (simp add: build_snapshot_def Let_def)
  then show ?thesis using n rsi_flat_len rsi_flat_loss by simp
qed

lemma rsi_settled_len: "15 < length rsi_settled"
  by (simp add: rsi_settled_def bars_of_def)

lemma rsi_settled_loss: "rsi_loss (closes rsi_settled) ! 15 = Fin 0"
  by (simp only: rsi_loss_nth [OF rsi_settled_len, of, simplified] upt_2_16)
    (simp add: mean_r_def loss_at_def delta_def rsi_settled_def bars_of_def)

lemma rsi_settled_gain: "rsi_gain (closes rsi_settled) ! 15 = Fin 0"
  by (simp only: rsi_gain_nth [OF rsi_settled_len, of, simplified] upt_2_16)
    (simp add: mean_r_def gain_at_def delta_def rsi_settled_def bars_of_def)

text \<open>
  Claim C3 as stated fails on a history that rises once and then stays: index 15 has
  enough history, and the RSI there is \<^verbatim>\<open>NaN\<close>, which is no number of the interval.
\<close>

theorem rsi_bounded_counterexample:
  "15 < length rsi_settled \<and> (14::nat) \<le> 15
 \<and> rsi_series (closes rsi_settled) ! 15 = NaN"
proof -
  have "rsi_series (closes rsi_settled) ! 15 = NaN"
    using rsi_settled_len _ rsi_settled_gain rsi_settled_loss by (rule rsi_flat_window) simp
  then show ?thesis using rsi_settled_len by simp
qed

lemma rsi_alternating_len: "14 < length rsi_alternating"
  by (simp add: rsi_alternating_def bars_of_def)

lemma rsi_alternating_loss: "rsi_loss (closes rsi_alternating) ! 14 = Fin (1 / 2)"
  by (simp only: rsi_loss_nth [OF rsi_alternating_len order_refl] upt_1_15)
    (simp add: mean_r_def loss_at_def delta_def rsi_alternating_def bars_of_def)

lemma rsi_alternating_gain: "rsi_gain (closes rsi_alternating) ! 14 = Fin (1 / 2)"
  by (simp only: rsi_gain_nth [OF rsi_alternating_len order_refl] upt_1_15)
    (simp add: mean_r_def gain_at_def delta_def rsi_alternating_def bars_of_def)

theorem rsi_bounded_witness:
  "14 < length rsi_alternating \<and> (14::nat) \<le> 14
 \<and> rsi_gain (closes rsi_alternating) ! 14 = Fin (1 / 2)
 \<and> rsi_loss (closes rsi_alternating) ! 14 = Fin (1 / 2)
 \<and> rsi_series (closes rsi_alternating) ! 14 = Fin 50
 \<and> (\<exists>r. rsi_series (closes rsi_alternating) ! 14 = Fin r \<and> 0 \<le> r \<and> r \<le> 100)"
proof -
  have ne: "\<not> (rsi_gain (closes rsi_alternating) ! 14 = Fin 0
             \<and> rsi_loss (closes rsi_alternating) ! 14 = Fin 0)"
    by (simp add: rsi_alternating_gain)
  have v: "rsi_series (closes rsi_alternating) ! 14 = Fin 50"
    using rsi_alternating_len
    by (simp add: rsi_series_nth length_closes rsi_alternating_gain rsi_alternating_loss fsub_def)
  from rsi_bounded [OF rsi_alternating_len order_refl ne] v
  show ?thesis using rsi_alternating_len rsi_alternating_gain rsi_alternating_loss by simp
qed

section \<open>Risk metrics\<close>

lemma series_std_short: "length (dropna returns) \<le> 1 \<Longrightarrow> series_std returns = NaN"
  by (simp add: series_std_def Let_def)

lemma volatility_of_finite:
  "series_std returns = Fin s \<Longrightarrow> volatility_of returns = Fin (s * sqrt 252 * 100)"
  by (simp add: volatility_of_def)

lemma volatility_of_undefined:
  "length (dropna returns) \<le> 1 \<Longrightarrow> volatility_of returns = NaN"
  by (simp add: volatility_of_def series_std_short)

lemma sharpe_of_undefined:
  "length (dropna returns) \<le> 1 \<Longrightarrow> sharpe_of returns = Fin 0"
  by (simp add: sharpe_of_def series_std_short)

lemma risk_metrics_zero_std:
  "series_std returns = Fin 0 \<Longrightarrow> volatility_of returns = Fin 0 \<and> sharpe_of returns = Fin 0"
  by (simp add: volatility_of_def sharpe_of_def)

lemma series_std_constant:
  assumes "2 \<le> n"
  shows "series_std (replicate n (Fin c)) = Fin 0"
proof -
  have d: "dropna (replicate n (Fin c)) = replicate n (Fin c)"
    by (simp add: dropna_def)
  have f: "finite_vals (replicate n (Fin c)) = replicate n c"
    by (induction n) simp_all
  have "n \<noteq> 0" using assms by simp
  then have m: "mean_r (replicate n c) = c"
    by (simp add: mean_r_def sum_list_replicate)
  have "std_r (replicate n c) = 0"
    by (simp add: std_r_def m sum_list_replicate)
  then show ?thesis using assms by (simp add: series_std_def d f)
qed

text \<open>
  Claim C1 says that the volatility and the risk-adjusted return are both 0 when the return
  series has at most one element. On a history of one bar the return series is empty and
  on a history of two bars it has one element: the risk-adjusted return is 0 (line 35 has
  the guard), and the volatility (line 34, which has none) is \<^verbatim>\<open>NaN\<close>, also in the snapshot.
\<close>

theorem volatility_one_bar_is_nan:
  "daily_returns (bars_of [100]) = []
 \<and> volatility_of (daily_returns (bars_of [100])) = NaN
 \<and> sharpe_of (daily_returns (bars_of [100])) = Fin 0
 \<and> volatility (build_snapshot ''ONE'' (bars_of [100]) no_profile 0) = NaN
 \<and> sharpe_ratio (build_snapshot ''ONE'' (bars_of [100]) no_profile 0) = Fin 0
 \<and> daily_returns (bars_of [100, 110]) = [Fin (1 / 10)]
 \<and> volatility_of (daily_returns (bars_of [100, 110])) = NaN"
proof -
  have r1: "daily_returns (bars_of [100]) = []"
    by (simp add: daily_returns_def pct_change_def closes_def bars_of_def shift1_def dropna_def
          fsub_def)
  have r2: "daily_returns (bars_of [100, 110]) = [Fin (1 / 10)]"
    by (simp add: daily_returns_def pct_change_def closes_def bars_of_def shift1_def dropna_def
          fsub_def)
  have v1: "volatility_of (daily_returns (bars_of [100])) = NaN"
    by (rule volatility_of_undefined) (simp add: r1 dropna_def)
  have s1: "sharpe_of (daily_returns (bars_of [100])) = Fin 0"
    by (rule sharpe_of_undefined) (simp add: r1 dropna_def)
  have v2: "volatility_of (daily_returns (bars_of [100, 110])) = NaN"
    by (rule volatility_of_undefined) (simp add: r2 dropna_def)
  have "volatility (build_snapshot ''ONE'' (bars_of [100]) no_profile 0) = NaN"
    by (simp add: build_snapshot_def Let_def v1)
  moreover have "sharpe_ratio (build_snapshot ''ONE'' (bars_of [100]) no_profile 0) = Fin 0"
    by (simp add: build_snapshot_def Let_def s1 round_real_0)
  ultimately show ?thesis using r1 r2 v1 s1 v2 by simp
qed

end
